theory Spec2Isabelle
  imports Complex_Main "HOL-Library.Sublist"
begin

section \<open>Strings of the source language\<close>

text \<open>
  A string of the source is a sequence of UTF-16 code units. The model represents the
  code units below 256 (the ISO-8859-1 range) by \<^typ>\<open>char\<close>, so a \<^typ>\<open>string\<close>
  stands for a source string all of whose code units are in that range; \<open>length\<close> is
  the source's \<open>.length\<close>.
\<close>

text \<open>\<open>String.prototype.toLowerCase\<close> on one code unit: the letters A-Z and the
  upper-case letters of ISO-8859-1 (0xC0-0xDE without the multiplication sign 0xD7)
  move up by 32; every other code unit is unchanged.\<close>

definition toLowerChar :: "char \<Rightarrow> char" where
  "toLowerChar c =
     (let n = (of_char c :: nat)
      in if (65 \<le> n \<and> n \<le> 90) \<or> (192 \<le> n \<and> n \<le> 222 \<and> n \<noteq> 215)
         then char_of (n + 32) else c)"

definition toLowerCase :: "string \<Rightarrow> string" where
  "toLowerCase s = map toLowerChar s"

text \<open>The class \<open>\s\<close> of a regular expression, which is also what \<open>trim\<close> strips:
  tab, line feed, vertical tab, form feed, carriage return, space and the no-break space.\<close>

definition is_space :: "char \<Rightarrow> bool" where
  "is_space c = (of_char c \<in> set [9, 10, 11, 12, 13, 32, 160 :: nat])"

text \<open>The class \<open>\w\<close>: ASCII letters, digits and the underscore.\<close>

definition is_word :: "char \<Rightarrow> bool" where
  "is_word c =
     (let n = (of_char c :: nat)
      in (48 \<le> n \<and> n \<le> 57) \<or> (65 \<le> n \<and> n \<le> 90) \<or> n = 95 \<or> (97 \<le> n \<and> n \<le> 122))"

text \<open>\<open>s.startsWith(p)\<close>, used for the anchored patterns \<open>/^.../\<close>.\<close>

fun startsWith :: "string \<Rightarrow> string \<Rightarrow> bool" where
  "startsWith s [] = True"
| "startsWith [] (p # ps) = False"
| "startsWith (c # cs) (p # ps) = (c = p \<and> startsWith cs ps)"

text \<open>\<open>s.includes(t)\<close>: \<open>t\<close> occurs in \<open>s\<close> as a contiguous substring.\<close>

fun strIncludes :: "string \<Rightarrow> string \<Rightarrow> bool" where
  "strIncludes [] t = (t = [])"
| "strIncludes (c # cs) t = (startsWith (c # cs) t \<or> strIncludes cs t)"

text \<open>\<open>keywords.some(k => s.includes(k))\<close>.\<close>

definition includesAny :: "string \<Rightarrow> string list \<Rightarrow> bool" where
  "includesAny s ks = list_ex (strIncludes s) ks"

text \<open>\<open>s.replace(/^p/, '')\<close> for a literal \<open>p\<close>: drop \<open>p\<close> when the string starts with it.\<close>

definition stripPrefix :: "string \<Rightarrow> string \<Rightarrow> string" where
  "stripPrefix p s = (if startsWith s p then drop (length p) s else s)"

text \<open>\<open>s.replace(/\/$/, '')\<close>: drop one trailing slash.\<close>

definition stripTrailingSlash :: "string \<Rightarrow> string" where
  "stripTrailingSlash s = (if s \<noteq> [] \<and> last s = CHR ''/'' then butlast s else s)"

text \<open>\<open>s.split('?')[0]\<close>: the part before the first question mark.\<close>

definition beforeQuery :: "string \<Rightarrow> string" where
  "beforeQuery s = takeWhile (\<lambda>c. c \<noteq> CHR ''?'') s"

text \<open>\<open>s.replace(/\s+/g, ' ')\<close>: every maximal run of white space becomes one space.\<close>

function collapseSpaces :: "string \<Rightarrow> string" where
  "collapseSpaces [] = []"
| "collapseSpaces (c # cs) =
     (if is_space c then CHR '' '' # collapseSpaces (dropWhile is_space cs)
      else c # collapseSpaces cs)"
  by pat_completeness auto
termination
  by (relation "measure length") (auto simp: length_dropWhile_le less_Suc_eq_le)

text \<open>\<open>s.trim()\<close>.\<close>

definition trim :: "string \<Rightarrow> string" where
  "trim s = rev (dropWhile is_space (rev (dropWhile is_space s)))"

section \<open>Data model (types.ts)\<close>

record source_ref =
  src_title :: string
  uri :: string

record NewsArticle =
  title :: string
  date :: string
  summary :: string
  takeaways :: "string list"
  source :: source_ref
  thumbnailUrl :: "string option"

record CompanyNewsSection =
  companyName :: string
  articles :: "NewsArticle list"

record NewsData =
  internationalNews :: "NewsArticle list"
  generalNews :: "NewsArticle list"
  companyNews :: "CompanyNewsSection list"

text \<open>Share counts are numbers of the source; the model takes them as integers.\<close>

record EngagementMetrics =
  total_shares :: int
  facebook_shares :: "int option"
  pinterest_shares :: "int option"
  twitter_shares :: "int option"
  total_links :: "int option"
  evergreen_score :: "rat option"

record BuzzSumoArticle =
  b_title :: string
  url :: string
  published_date :: string
  author :: "string option"
  domain_name :: string
  engagement :: EngagementMetrics
  thumbnail :: "string option"
  excerpt :: "string option"

section \<open>Cross-source duplicate detection (services/geminiService.ts)\<close>

text \<open>
  The platform's \<open>new URL(url)\<close> is not code of the repository. \<open>normalizeUrl\<close> reads
  two fields of its result and falls back to string surgery when it throws, so the
  parser is a parameter: \<open>None\<close> is the thrown \<open>TypeError\<close>.
\<close>

record parsed_url =
  hostname :: string
  pathname :: string

type_synonym url_parser = "string \<Rightarrow> parsed_url option"

definition normalizeUrl :: "url_parser \<Rightarrow> string \<Rightarrow> string" where
  "normalizeUrl P u =
     (case P u of
        Some urlObj \<Rightarrow>
          stripPrefix ''www.'' (hostname urlObj) @ stripTrailingSlash (pathname urlObj)
      | None \<Rightarrow>
          (let s0 = toLowerCase u;
               s1 = (if startsWith s0 ''https://'' then drop 8 s0
                     else if startsWith s0 ''http://'' then drop 7 s0 else s0);
               s2 = stripPrefix ''www.'' s1;
               s3 = stripTrailingSlash s2
           in beforeQuery s3))"

definition normalizeTitle :: "string \<Rightarrow> string" where
  "normalizeTitle t =
     trim (collapseSpaces (filter (\<lambda>c. is_word c \<or> is_space c) (toLowerCase t)))"

definition areDuplicateArticles :: "url_parser \<Rightarrow> NewsArticle \<Rightarrow> NewsArticle \<Rightarrow> bool" where
  "areDuplicateArticles P article1 article2 =
     (let url1 = normalizeUrl P (uri (source article1));
          url2 = normalizeUrl P (uri (source article2))
      in if url1 = url2 then True
         else
           (let title1 = normalizeTitle (title article1);
                title2 = normalizeTitle (title article2)
            in if title1 = title2 then True
               else
                 (let longerTitle = (if length title1 > length title2 then title1 else title2);
                      shorterTitle = (if length title1 > length title2 then title2 else title1)
                  in if length shorterTitle > 10 \<and> strIncludes longerTitle shorterTitle then True
                     else False)))"

text \<open>
  A model of the platform's URL parser for the worked examples: an \<open>http\<close> or
  \<open>https\<close> scheme (in any letter case), \<open>://\<close>, a non-empty host up to the first
  \<open>/\<close>, \<open>?\<close> or \<open>#\<close> with an optional \<open>:port\<close>, then the path up to the first \<open>?\<close> or
  \<open>#\<close>. The host is lower-cased and an empty path is \<open>/\<close>, as the platform does. It
  is not the platform's parser in general: the platform rejects ports out of range,
  rewrites numeric hosts, percent-encodes characters of the path and resolves dot
  segments, and this model does none of that. It is applied only to the plain URLs of
  the examples (a host name of letters and dots, no port, a path of letters and slashes),
  where the two agree. General statements do not use it: they hold for every parser.
\<close>

definition parseURL :: url_parser where
  "parseURL u =
     (let l = toLowerCase u;
          n = (if startsWith l ''https://'' then 8 else if startsWith l ''http://'' then 7 else 0);
          rest = drop n u;
          authority = takeWhile (\<lambda>c. c \<notin> set ''/?#'') rest;
          after = dropWhile (\<lambda>c. c \<notin> set ''/?#'') rest;
          host = takeWhile (\<lambda>c. c \<noteq> CHR '':'') authority;
          path = takeWhile (\<lambda>c. c \<notin> set ''?#'') after
      in if n = 0 \<or> host = [] \<or> CHR ''@'' \<in> set authority then None
         else Some \<lparr> hostname = toLowerCase host,
                     pathname = (if path = [] then ''/'' else path) \<rparr>)"

section \<open>The engagement-search service (services/buzzsumoService.ts)\<close>

subsection \<open>Intra-source duplicate removal\<close>

text \<open>
  \<open>deduplicateArticles\<close> filters the list with a callback that reads and extends the
  set \<open>seen\<close>; the model threads the set through the traversal.
\<close>

definition dedupKey :: "BuzzSumoArticle \<Rightarrow> string" where
  "dedupKey article = stripTrailingSlash (toLowerCase (url article))"

fun dedupFilter :: "string set \<Rightarrow> BuzzSumoArticle list \<Rightarrow> BuzzSumoArticle list" where
  "dedupFilter seen [] = []"
| "dedupFilter seen (article # rest) =
     (let normalizedUrl = dedupKey article
      in if normalizedUrl \<in> seen then dedupFilter seen rest
         else article # dedupFilter (insert normalizedUrl seen) rest)"

definition deduplicateArticles :: "BuzzSumoArticle list \<Rightarrow> BuzzSumoArticle list" where
  "deduplicateArticles arts = dedupFilter {} arts"

subsection \<open>Relevance validation\<close>

text \<open>\<open>s.split(/\s+/)\<close>: the pieces between maximal runs of white space; a string that
  starts or ends with white space yields an empty first or last piece.\<close>

function splitSpaces :: "string \<Rightarrow> string list" where
  "splitSpaces s =
     (let w = takeWhile (\<lambda>c. \<not> is_space c) s;
          r = dropWhile (\<lambda>c. \<not> is_space c) s
      in if r = [] then [w] else w # splitSpaces (dropWhile is_space r))"
  by pat_completeness auto
termination
proof (relation "measure length")
  show "wf (measure length)" by simp
next
  fix s :: string and w r
  assume r: "r = dropWhile (\<lambda>c. \<not> is_space c) s" and ne: "r \<noteq> []"
  from ne obtain c cs where rc: "r = c # cs" by (cases r) auto
  with r have "is_space c" by (auto simp: dropWhile_eq_Cons_conv dest: sym)
  with rc have "length (dropWhile is_space r) \<le> length cs"
    by (simp add: length_dropWhile_le)
  moreover have "length r \<le> length s" using r by (simp add: length_dropWhile_le)
  ultimately show "(dropWhile is_space r, s) \<in> measure length" using rc by simp
qed

declare splitSpaces.simps [simp del]

text \<open>\<open>xs.findIndex(p)\<close>; \<open>None\<close> stands for the result \<open>-1\<close>.\<close>

fun findIndex :: "('a \<Rightarrow> bool) \<Rightarrow> 'a list \<Rightarrow> nat option" where
  "findIndex p [] = None"
| "findIndex p (x # xs) = (if p x then Some 0 else map_option Suc (findIndex p xs))"

text \<open>\<open>xs[i]\<close>; \<open>None\<close> stands for \<open>undefined\<close>.\<close>

definition elemAt :: "'a list \<Rightarrow> nat \<Rightarrow> 'a option" where
  "elemAt xs i = (if i < length xs then Some (xs ! i) else None)"

definition telcoCompanyIndicators :: "string list" where
  "telcoCompanyIndicators =
     [''pldt'', ''globe telecom'', ''dito telecommunity'', ''dito telecoms'',
      ''converge ict'', ''smart communications'',
      ''telecommunications'', ''telecom'', ''telecoms'',
      ''mobile network'', ''broadband'', ''internet service provider'', ''isp'',
      ''5g network'', ''fiber network'', ''cellular'',
      ''dict'', ''ntc'', ''telco'', ''telcos'']"

definition smartFalsePositives :: "string list" where
  "smartFalsePositives =
     [''smart meter'', ''smart grid'', ''smart city'', ''smart home'',
      ''smart device'', ''smart tv'', ''smart watch'', ''smart phone'',
      ''smart technology'', ''smart monitoring'', ''smart system'',
      ''smart economics'', ''smart solution'', ''smart app'',
      ''smart card'', ''be smart'', ''work smart'', ''smart choice'']"

definition ditoFalsePositives :: "string list" where
  "ditoFalsePositives =
     [''dito sa'', ''dito ang'', ''dito na'', ''dito pa'',
      ''pumunta dito'', ''magtungo dito'', ''dumating dito'']"

text \<open>The first entry is written in the source with the code units 0xC3 0xA9 between
  \<open>vend\<close> and \<open>e\<close>.\<close>

definition globeFalsePositives :: "string list" where
  "globeFalsePositives =
     [''vend'' @ [CHR 0xC3, CHR 0xA9] @ ''e globe'', ''golden globe'', ''globe award'',
      ''around the globe'', ''across the globe'', ''globe trot'']"

definition convergeFalsePositives :: "string list" where
  "convergeFalsePositives = [''fiberxers'', ''fiber xers'', ''basketball'', ''pba'']"

text \<open>The body of the branch for an ambiguous \<open>dito\<close>; the result \<open>True\<close> is the
  source's \<open>return false\<close>. \<open>nextWord && [...].includes(nextWord)\<close> is false for an
  undefined and for an empty \<open>nextWord\<close>.\<close>

definition ditoRejects :: "string \<Rightarrow> string \<Rightarrow> bool" where
  "ditoRejects ttl combined =
     (if includesAny ttl ditoFalsePositives then True
      else
        (let words = splitSpaces ttl
         in case findIndex (\<lambda>w. strIncludes w ''dito'') words of
              None \<Rightarrow> False
            | Some ditoIndex \<Rightarrow>
                (let nextWord = elemAt words (ditoIndex + 1)
                 in if (case nextWord of
                          None \<Rightarrow> False
                        | Some n \<Rightarrow> n \<noteq> [] \<and> n \<in> set [''sa'', ''ang'', ''na'', ''pa'', ''ay''])
                    then True
                    else \<not> includesAny combined telcoCompanyIndicators)))"

definition validateTelcoRelevance :: "BuzzSumoArticle \<Rightarrow> bool" where
  "validateTelcoRelevance article =
     (let ttl = toLowerCase (b_title article);
          exc = toLowerCase (case excerpt article of None \<Rightarrow> [] | Some e \<Rightarrow> e);
          combined = ttl @ '' '' @ exc
      in if strIncludes ttl ''smart'' \<and> \<not> strIncludes ttl ''smart communications''
            \<and> includesAny ttl smartFalsePositives
            \<and> \<not> includesAny combined telcoCompanyIndicators then False
         else if strIncludes ttl ''dito'' \<and> \<not> strIncludes ttl ''dito telecom''
            \<and> \<not> strIncludes ttl ''dito network'' \<and> ditoRejects ttl combined then False
         else if strIncludes ttl ''globe'' \<and> \<not> strIncludes ttl ''globe telecom''
            \<and> includesAny ttl globeFalsePositives then False
         else if strIncludes ttl ''converge'' \<and> \<not> strIncludes ttl ''converge ict''
            \<and> includesAny ttl convergeFalsePositives then False
         else True)"

subsection \<open>Importance classification\<close>

definition sportsKeywords :: "string list" where
  "sportsKeywords =
     [''pba'', ''pvl'', ''uaap'', ''ncaa'', ''nba'', ''fiba'',
      ''basketball'', ''volleyball'', ''gilas'',
      ''traded'', ''debut'', ''match'', ''game'', ''score'',
      ''fiberxers'', ''high speed hitters'', ''tropang'',
      ''golden'', ''tournament'', ''championship'', ''playoffs'',
      ''injured'', ''injures'', ''triple-double'', ''season'',
      ''coach'', ''player'', ''team'', ''win'', ''loss'', ''defeat'']"

definition lowImportanceKeywords :: "string list" where
  "lowImportanceKeywords =
     [''promo'', ''sale'', ''discount'', ''voucher'', ''giveaway'',
      ''celebrity'', ''endorsement'', ''ambassador'',
      ''raffle'', ''contest'', ''prize'',
      ''csr'', ''charity'', ''donation'', ''scholarship'',
      ''award ceremony'', ''recognition event'',
      ''new plan'', ''price cut'', ''special offer'',
      ''bundle'', ''freebie'', ''limited time'']"

definition highImportanceKeywords :: "string list" where
  "highImportanceKeywords =
     [''billion'', ''million'', ''investment'', ''capex'',
      ''infrastructure'', ''subsea cable'', ''fiber'', ''data center'',
      ''network expansion'', ''rollout'', ''deployment'',
      ''dict'', ''ntc'', ''regulatory'', ''policy'', ''law'',
      ''spectrum'', ''license'', ''permit'', ''circular'',
      ''5g'', ''fiber'', ''broadband'', ''satellite'', ''starlink'',
      ''cybersecurity'', ''breach'', ''hack'', ''outage'',
      ''merger'', ''acquisition'', ''partnership'', ''alliance'',
      ''earnings'', ''revenue'', ''profit'', ''quarterly'',
      ''stock'', ''ipo'', ''shares'',
      ''outage'', ''disruption'', ''complaint'', ''npc'',
      ''data breach'', ''privacy'', ''security'']"

definition majorNewsSources :: "string list" where
  "majorNewsSources =
     [''philstar.com'', ''mb.com.ph'', ''bworldonline.com'',
      ''rappler.com'', ''inquirer.net'', ''gmanetwork.com'',
      ''abs-cbn.com'', ''manilatimes.net'', ''manilabulletin.com'',
      ''newsbytes.ph'', ''bilyonaryo.com'']"

text \<open>The callback of the filter in \<open>filterImportantArticles\<close>.\<close>

definition isImportantArticle :: "BuzzSumoArticle \<Rightarrow> bool" where
  "isImportantArticle article =
     (let ttl = toLowerCase (b_title article);
          domain = toLowerCase (domain_name article)
      in if \<not> validateTelcoRelevance article then False
         else if strIncludes domain ''youtube.com'' \<or> strIncludes domain ''youtu.be'' then False
         else if includesAny ttl sportsKeywords then False
         else if includesAny ttl lowImportanceKeywords then False
         else
           (let hasImportantKeyword = includesAny ttl highImportanceKeywords;
                isMajorNewsSource = includesAny domain majorNewsSources
            in hasImportantKeyword
               \<or> (isMajorNewsSource \<and> \<not> strIncludes ttl ''ad''
                   \<and> \<not> strIncludes ttl ''sponsored'')))"

definition filterImportantArticles :: "BuzzSumoArticle list \<Rightarrow> BuzzSumoArticle list" where
  "filterImportantArticles arts = filter isImportantArticle arts"

subsection \<open>The source's pipeline\<close>

text \<open>
  The argument is the outcome of the awaited \<open>fetchBuzzSumoNews\<close> call: \<open>Inl\<close> the
  thrown error, \<open>Inr\<close> the fetched articles. \<open>Array.prototype.sort\<close> is stable, and
  the comparator \<open>b.engagement.total_shares - a.engagement.total_shares\<close> orders by
  descending share count, which is the stable insertion sort on the negated count.
\<close>

definition fetchPhilippineTelcoNews ::
  "string + BuzzSumoArticle list \<Rightarrow> BuzzSumoArticle list" where
  "fetchPhilippineTelcoNews fetched =
     (case fetched of
        Inl error \<Rightarrow> []
      | Inr arts \<Rightarrow>
          (let uniqueArticles = deduplicateArticles arts;
               importantArticles = filterImportantArticles uniqueArticles;
               ranked = sort_key (\<lambda>a. - total_shares (engagement a)) importantArticles
           in take 15 ranked))"

section \<open>Merging the two sources (services/geminiService.ts)\<close>

text \<open>A share count inside a template string: the decimal numeral of the integer, as
  the source prints integers below \<open>10^21\<close>.\<close>

fun showNat :: "nat \<Rightarrow> string" where
  "showNat n =
     (if n < 10 then [char_of (48 + n)]
      else showNat (n div 10) @ [char_of (48 + n mod 10)])"

declare showNat.simps [simp del]

definition showInt :: "int \<Rightarrow> string" where
  "showInt i = (if i < 0 then ''-'' @ showNat (nat (- i)) else showNat (nat i))"

definition convertBuzzSumoToNewsArticle :: "BuzzSumoArticle \<Rightarrow> NewsArticle" where
  "convertBuzzSumoToNewsArticle article =
     \<lparr> title = b_title article,
       date = published_date article,
       summary =
         (case excerpt article of
            Some e \<Rightarrow>
              if e \<noteq> [] then e
              else ''Trending article from '' @ domain_name article @ '' with ''
                   @ showInt (total_shares (engagement article)) @ '' social shares.''
          | None \<Rightarrow>
              ''Trending article from '' @ domain_name article @ '' with ''
              @ showInt (total_shares (engagement article)) @ '' social shares.''),
       takeaways =
         [''High engagement: '' @ showInt (total_shares (engagement article))
            @ '' total shares across social platforms'',
          ''Source: '' @ domain_name article],
       source = \<lparr> src_title = domain_name article, uri = url article \<rparr>,
       thumbnailUrl = thumbnail article \<rparr>"

definition mergeNewsWithBuzzSumo ::
  "url_parser \<Rightarrow> NewsData \<Rightarrow> BuzzSumoArticle list \<Rightarrow> NewsData" where
  "mergeNewsWithBuzzSumo P googleNews buzzsumoArticles =
     (let buzzsumoNewsArticles = map convertBuzzSumoToNewsArticle buzzsumoArticles;
          existingArticles =
            internationalNews googleNews @ generalNews googleNews
            @ concat (map articles (companyNews googleNews));
          uniqueBuzzsumoArticles =
            filter (\<lambda>buzzsumoArticle.
                      \<not> list_ex (\<lambda>existingArticle.
                                    areDuplicateArticles P existingArticle buzzsumoArticle)
                            existingArticles)
              buzzsumoNewsArticles
      in googleNews \<lparr> generalNews := generalNews googleNews @ uniqueBuzzsumoArticles \<rparr>)"

section \<open>Title similarity and the news endpoint (server)\<close>

text \<open>\<open>s.split(' ')\<close>: the pieces between single space characters.\<close>

function splitOnSpace :: "string \<Rightarrow> string list" where
  "splitOnSpace s =
     (let w = takeWhile (\<lambda>c. c \<noteq> CHR '' '') s;
          r = dropWhile (\<lambda>c. c \<noteq> CHR '' '') s
      in if r = [] then [w] else w # splitOnSpace (tl r))"
  by pat_completeness auto
termination
proof (relation "measure length")
  show "wf (measure length)" by simp
next
  fix s :: string and w r
  assume r: "r = dropWhile (\<lambda>c. c \<noteq> CHR '' '') s" and ne: "r \<noteq> []"
  have "length r \<le> length s" using r by (simp add: length_dropWhile_le)
  with ne show "(tl r, s) \<in> measure length" by (cases r) auto
qed

declare splitOnSpace.simps [simp del]

text \<open>\<open>new Set(xs)\<close>, as the list of its elements in insertion order: the first
  occurrence of every element.\<close>

definition newSet :: "'a list \<Rightarrow> 'a list" where
  "newSet xs = rev (remdups (rev xs))"

text \<open>
  The result is the quotient of two counts (or the constant \<open>1.0\<close>, or \<open>0\<close>). The
  source rounds the quotient to a double, which is a function of the two counts; the
  model keeps the exact rational.
\<close>

definition calculateTitleSimilarity :: "string \<Rightarrow> string \<Rightarrow> rat" where
  "calculateTitleSimilarity title1 title2 =
     (let norm1 = normalizeTitle title1;
          norm2 = normalizeTitle title2
      in if norm1 = norm2 then 1
         else
           (let words1 = newSet (splitOnSpace norm1);
                words2 = newSet (splitOnSpace norm2);
                intersection = length (filter (\<lambda>w. w \<in> set words2) words1);
                union = length (newSet (words1 @ words2))
            in if union > 0 then of_nat intersection / of_nat union else 0))"

text \<open>
  The handler of \<open>GET /api/news\<close>. Its inputs are the two query parameters (\<open>None\<close>
  when absent) and the two settled promises of \<open>Promise.allSettled\<close>: \<open>Inl\<close> a
  rejection with the message of its reason, \<open>Inr\<close> the fulfilled value. The URL repair
  \<open>fixAndValidateArticleUrls\<close> does network requests and is a parameter; \<open>Inl\<close> is the
  message of an error it throws, which the handler's \<open>catch\<close> reports.
\<close>

record 'c gemini_value =
  parsedData :: NewsData
  groundingChunks :: "'c list"

datatype response =
    ErrorResponse nat string "string option"
  | NewsResponse NewsData "BuzzSumoArticle list"

definition api_news ::
  "(NewsData \<Rightarrow> 'c list \<Rightarrow> BuzzSumoArticle list \<Rightarrow> string + NewsData)
   \<Rightarrow> string option \<Rightarrow> string option
   \<Rightarrow> string + 'c gemini_value \<Rightarrow> string + BuzzSumoArticle list \<Rightarrow> response" where
  "api_news fixAndValidateArticleUrls startDate endDate geminiResult buzzsumoResult =
     (if startDate \<in> {None, Some []} \<or> endDate \<in> {None, Some []}
      then ErrorResponse 400 ''Missing required parameters: startDate and endDate'' None
      else
        (case geminiResult of
           Inl reason \<Rightarrow>
             ErrorResponse 500 ''Failed to fetch news from Gemini API'' (Some reason)
         | Inr v \<Rightarrow>
             (let buzzsumoArticles = (case buzzsumoResult of Inr val \<Rightarrow> val | Inl _ \<Rightarrow> [])
              in case fixAndValidateArticleUrls (parsedData v) (groundingChunks v) buzzsumoArticles of
                   Inl message \<Rightarrow> ErrorResponse 500 ''Internal server error'' (Some message)
                 | Inr validatedNewsData \<Rightarrow> NewsResponse validatedNewsData buzzsumoArticles)))"

text \<open>Sample data for the worked examples.\<close>

abbreviation sampleBuzz :: "string \<Rightarrow> string \<Rightarrow> string \<Rightarrow> int \<Rightarrow> BuzzSumoArticle" where
  "sampleBuzz t u d n \<equiv>
     \<lparr> b_title = t, url = u, published_date = ''May 1, 2025'', author = None,
       domain_name = d,
       engagement = \<lparr> total_shares = n, facebook_shares = None, pinterest_shares = None,
                      twitter_shares = None, total_links = None, evergreen_score = None \<rparr>,
       thumbnail = None, excerpt = None \<rparr>"

abbreviation sampleNews :: "string \<Rightarrow> string \<Rightarrow> NewsArticle" where
  "sampleNews t u \<equiv>
     \<lparr> title = t, date = ''May 1, 2025'', summary = ''Summary.'', takeaways = [],
       source = \<lparr> src_title = ''Example'', uri = u \<rparr>, thumbnailUrl = None \<rparr>"

section \<open>Substring search is contiguous-sublist containment\<close>

lemma startsWith_iff_prefix: "startsWith s p \<longleftrightarrow> prefix p s"
  by (induction s p rule: startsWith.induct) auto

lemma strIncludes_iff_sublist: "strIncludes s t \<longleftrightarrow> sublist t s"
  by (induction s) (simp_all add: startsWith_iff_prefix sublist_Cons_right)

lemma includesAny_iff: "includesAny s ks \<longleftrightarrow> (\<exists>k\<in>set ks. sublist k s)"
  by (simp add: includesAny_def list_ex_iff strIncludes_iff_sublist)

lemma strIncludes_same_length: "length s = length t \<Longrightarrow> strIncludes s t \<longleftrightarrow> s = t"
proof
  assume len: "length s = length t" and inc: "strIncludes s t"
  then obtain ps ss where "s = ps @ t @ ss"
    by (auto simp: strIncludes_iff_sublist sublist_def)
  with len show "s = t" by (cases ps; cases ss) auto
next
  assume "s = t"
  then show "strIncludes s t" by (simp add: strIncludes_iff_sublist)
qed

section \<open>Duplicate articles\<close>

lemma areDuplicateArticles_unfold:
  "areDuplicateArticles P a b \<longleftrightarrow>
     normalizeUrl P (uri (source a)) = normalizeUrl P (uri (source b))
   \<or> normalizeTitle (title a) = normalizeTitle (title b)
   \<or> (if length (normalizeTitle (title a)) > length (normalizeTitle (title b))
       then length (normalizeTitle (title b)) > 10
            \<and> strIncludes (normalizeTitle (title a)) (normalizeTitle (title b))
       else length (normalizeTitle (title a)) > 10
            \<and> strIncludes (normalizeTitle (title b)) (normalizeTitle (title a)))"
  by (simp add: areDuplicateArticles_def Let_def)

lemma shorter_in_longer:
  "(if length s > length t then length t > 10 \<and> strIncludes s t
    else length s > 10 \<and> strIncludes t s)
   \<longleftrightarrow> (length s \<le> length t \<and> length s > 10 \<and> sublist s t)
     \<or> (length t \<le> length s \<and> length t > 10 \<and> sublist t s)"
proof (cases "length s > length t")
  case True
  then have "\<not> sublist s t" using sublist_length_le [of s t] by auto
  with True show ?thesis by (auto simp: strIncludes_iff_sublist)
next
  case False
  show ?thesis
  proof (cases "length s = length t")
    case True
    then have "sublist t s \<longleftrightarrow> sublist s t"
      using strIncludes_same_length [of s t] strIncludes_same_length [of t s]
      by (auto simp: strIncludes_iff_sublist)
    with True show ?thesis by (auto simp: strIncludes_iff_sublist)
  next
    case ne: False
    with False have lt: "length s < length t" by simp
    then have "\<not> sublist t s" using sublist_length_le [of t s] by auto
    with lt show ?thesis by (auto simp: strIncludes_iff_sublist)
  qed
qed

lemma areDuplicateArticles_cases:
  "areDuplicateArticles P a b \<longleftrightarrow>
      normalizeUrl P (uri (source a)) = normalizeUrl P (uri (source b))
    \<or> normalizeTitle (title a) = normalizeTitle (title b)
    \<or> (length (normalizeTitle (title a)) \<le> length (normalizeTitle (title b))
        \<and> length (normalizeTitle (title a)) > 10
        \<and> sublist (normalizeTitle (title a)) (normalizeTitle (title b)))
    \<or> (length (normalizeTitle (title b)) \<le> length (normalizeTitle (title a))
        \<and> length (normalizeTitle (title b)) > 10
        \<and> sublist (normalizeTitle (title b)) (normalizeTitle (title a)))"
  unfolding areDuplicateArticles_unfold shorter_in_longer by blast

lemma example_url_1:
  "normalizeUrl parseURL ''https://Example.com/news/story/'' = ''example.com/news/story''"
  by code_simp

lemma example_url_2:
  "normalizeUrl parseURL ''https://www.example.com/news/story?utm=1'' = ''example.com/news/story''"
  by code_simp

text \<open>
  C1. Two articles are duplicates exactly when their normalized URLs are equal, or their
  normalized titles are equal, or the shorter normalized title is longer than 10
  characters and occurs as a contiguous substring of the longer one. The URLs
  \<open>https://Example.com/news/story/\<close> and \<open>https://www.example.com/news/story?utm=1\<close>
  both normalize to \<open>example.com/news/story\<close>, so two articles carrying them are
  duplicates whatever their titles.
\<close>

theorem areDuplicateArticles_iff:
  "(areDuplicateArticles P a b \<longleftrightarrow>
      normalizeUrl P (uri (source a)) = normalizeUrl P (uri (source b))
    \<or> normalizeTitle (title a) = normalizeTitle (title b)
    \<or> (length (normalizeTitle (title a)) \<le> length (normalizeTitle (title b))
        \<and> length (normalizeTitle (title a)) > 10
        \<and> sublist (normalizeTitle (title a)) (normalizeTitle (title b)))
    \<or> (length (normalizeTitle (title b)) \<le> length (normalizeTitle (title a))
        \<and> length (normalizeTitle (title b)) > 10
        \<and> sublist (normalizeTitle (title b)) (normalizeTitle (title a))))
   \<and> normalizeUrl parseURL ''https://Example.com/news/story/'' = ''example.com/news/story''
   \<and> normalizeUrl parseURL ''https://www.example.com/news/story?utm=1'' = ''example.com/news/story''
   \<and> (uri (source c) = ''https://Example.com/news/story/''
        \<and> uri (source d) = ''https://www.example.com/news/story?utm=1''
        \<longrightarrow> areDuplicateArticles parseURL c d)"
proof -
  have "uri (source c) = ''https://Example.com/news/story/''
        \<and> uri (source d) = ''https://www.example.com/news/story?utm=1''
        \<longrightarrow> areDuplicateArticles parseURL c d"
    by (simp add: areDuplicateArticles_unfold example_url_1 example_url_2)
  then show ?thesis
    using areDuplicateArticles_cases [of P a b] example_url_1 example_url_2 by blast
qed

theorem areDuplicateArticles_iff_witness:
  "areDuplicateArticles parseURL
     (sampleNews ''PLDT posts record profit'' ''https://Example.com/news/story/'')
     (sampleNews ''Globe expands 5G'' ''https://www.example.com/news/story?utm=1'')"
  using areDuplicateArticles_iff
    [of parseURL
      "sampleNews ''PLDT posts record profit'' ''https://Example.com/news/story/''"
      "sampleNews ''Globe expands 5G'' ''https://www.example.com/news/story?utm=1''"
      "sampleNews ''PLDT posts record profit'' ''https://Example.com/news/story/''"
      "sampleNews ''Globe expands 5G'' ''https://www.example.com/news/story?utm=1''"]
  by simp

section \<open>Merging\<close>

lemma contained_title_duplicate:
  assumes "length (normalizeTitle (title n)) > 10"
    and "sublist (normalizeTitle (title n)) (normalizeTitle (title e))"
  shows "areDuplicateArticles P e n"
  using assms sublist_length_le [OF assms(2)] by (auto simp: areDuplicateArticles_cases)

lemma convert_title: "title (convertBuzzSumoToNewsArticle b) = b_title b"
  by (simp add: convertBuzzSumoToNewsArticle_def)

lemma merge_general:
  "generalNews (mergeNewsWithBuzzSumo P g bs) =
     generalNews g @
     filter (\<lambda>n. \<forall>e \<in> set (internationalNews g) \<union> set (generalNews g)
                        \<union> (\<Union>sec\<in>set (companyNews g). set (articles sec)).
                   \<not> areDuplicateArticles P e n)
       (map convertBuzzSumoToNewsArticle bs)"
proof -
  have "(\<lambda>n. \<not> list_ex (\<lambda>e. areDuplicateArticles P e n)
                 (internationalNews g @ generalNews g @ concat (map articles (companyNews g))))
      = (\<lambda>n. \<forall>e \<in> set (internationalNews g) \<union> set (generalNews g)
                        \<union> (\<Union>sec\<in>set (companyNews g). set (articles sec)).
                   \<not> areDuplicateArticles P e n)"
    by (auto simp: list_ex_iff fun_eq_iff)
  then show ?thesis by (simp add: mergeNewsWithBuzzSumo_def Let_def)
qed

lemma merge_drops_contained:
  assumes "e \<in> set (internationalNews g) \<union> set (generalNews g)
                \<union> (\<Union>sec\<in>set (companyNews g). set (articles sec))"
    and "length (normalizeTitle (b_title b)) > 10"
    and "sublist (normalizeTitle (b_title b)) (normalizeTitle (title e))"
  shows "convertBuzzSumoToNewsArticle b
           \<notin> set (drop (length (generalNews g)) (generalNews (mergeNewsWithBuzzSumo P g bs)))"
proof -
  have "areDuplicateArticles P e (convertBuzzSumoToNewsArticle b)"
    using assms(2,3) by (intro contained_title_duplicate) (simp_all add: convert_title)
  with assms(1) show ?thesis unfolding merge_general by auto
qed

lemma merge_single:
  assumes "generalNews g = [e]"
    and "length (normalizeTitle (b_title b)) > 10"
    and "sublist (normalizeTitle (b_title b)) (normalizeTitle (title e))"
  shows "generalNews (mergeNewsWithBuzzSumo P g [b]) = [e]"
proof -
  have "areDuplicateArticles P e (convertBuzzSumoToNewsArticle b)"
    using assms(2,3) by (intro contained_title_duplicate) (simp_all add: convert_title)
  with assms(1) show ?thesis unfolding merge_general by auto
qed

text \<open>
  C5. The general bucket of the merge is the input general bucket followed, in order, by
  exactly the converted secondary articles that are duplicates of no article of any
  primary bucket (international, general, or a company section). A secondary article whose
  normalized title is longer than 10 characters and is a substring of the normalized title
  of some primary article is not appended; when the primary source has the one general
  article and the secondary source that one article, the general bucket keeps exactly the
  primary copy.
\<close>

theorem mergeNewsWithBuzzSumo_general:
  "generalNews (mergeNewsWithBuzzSumo P g bs) =
     generalNews g @
     filter (\<lambda>n. \<forall>e \<in> set (internationalNews g) \<union> set (generalNews g)
                        \<union> (\<Union>sec\<in>set (companyNews g). set (articles sec)).
                   \<not> areDuplicateArticles P e n)
       (map convertBuzzSumoToNewsArticle bs)
   \<and> (e \<in> set (internationalNews g) \<union> set (generalNews g)
                \<union> (\<Union>sec\<in>set (companyNews g). set (articles sec))
       \<and> length (normalizeTitle (b_title b)) > 10
       \<and> sublist (normalizeTitle (b_title b)) (normalizeTitle (title e))
       \<longrightarrow> convertBuzzSumoToNewsArticle b
             \<notin> set (drop (length (generalNews g)) (generalNews (mergeNewsWithBuzzSumo P g bs))))
   \<and> (generalNews g = [e]
       \<and> length (normalizeTitle (b_title b)) > 10
       \<and> sublist (normalizeTitle (b_title b)) (normalizeTitle (title e))
       \<longrightarrow> generalNews (mergeNewsWithBuzzSumo P g [b]) = [e])"
  using merge_general [of P g bs] merge_drops_contained [of e g b P bs] merge_single [of g e b P]
  by blast

lemma sample_titles:
  "normalizeTitle ''PLDT expands fiber network in Cebu, Davao'' = ''pldt expands fiber network in cebu davao''"
  "normalizeTitle ''PLDT expands fiber network'' = ''pldt expands fiber network''"
  "sublist ''pldt expands fiber network'' ''pldt expands fiber network in cebu davao''"
  by code_simp+

theorem mergeNewsWithBuzzSumo_general_witness:
  "generalNews (mergeNewsWithBuzzSumo parseURL
       \<lparr> internationalNews = [],
         generalNews = [sampleNews ''PLDT expands fiber network in Cebu, Davao'' ''https://a.example/1''],
         companyNews = [] \<rparr>
       [sampleBuzz ''PLDT expands fiber network'' ''https://b.example/2'' ''b.example'' 40])
     = [sampleNews ''PLDT expands fiber network in Cebu, Davao'' ''https://a.example/1'']"
  by (rule mergeNewsWithBuzzSumo_general [THEN conjunct2, THEN conjunct2, THEN mp])
    (simp add: sample_titles)

text \<open>
  C10. Merging changes the general bucket only: the international bucket and the company
  sections of the result are those of the input, and the input's general bucket is a
  prefix of the result's.
\<close>

theorem mergeNewsWithBuzzSumo_frame:
  "internationalNews (mergeNewsWithBuzzSumo P g bs) = internationalNews g
   \<and> companyNews (mergeNewsWithBuzzSumo P g bs) = companyNews g
   \<and> prefix (generalNews g) (generalNews (mergeNewsWithBuzzSumo P g bs))
   \<and> take (length (generalNews g)) (generalNews (mergeNewsWithBuzzSumo P g bs)) = generalNews g"
  by (simp add: mergeNewsWithBuzzSumo_def Let_def)

theorem mergeNewsWithBuzzSumo_frame_witness:
  "internationalNews (mergeNewsWithBuzzSumo parseURL
       \<lparr> internationalNews = [sampleNews ''Starlink enters Asia'' ''https://c.example/3''],
         generalNews = [sampleNews ''PLDT expands fiber network'' ''https://a.example/1''],
         companyNews = [\<lparr> companyName = ''PLDT'', articles = [] \<rparr>] \<rparr>
       [sampleBuzz ''Globe to build data center'' ''https://b.example/2'' ''b.example'' 40])
     = [sampleNews ''Starlink enters Asia'' ''https://c.example/3'']"
  using mergeNewsWithBuzzSumo_frame
      [of parseURL
        "\<lparr> internationalNews = [sampleNews ''Starlink enters Asia'' ''https://c.example/3''],
           generalNews = [sampleNews ''PLDT expands fiber network'' ''https://a.example/1''],
           companyNews = [\<lparr> companyName = ''PLDT'', articles = [] \<rparr>] \<rparr>"
        "[sampleBuzz ''Globe to build data center'' ''https://b.example/2'' ''b.example'' 40]"]
  by simp

section \<open>Intra-source duplicate removal\<close>

lemma dedupFilter_keys:
  "distinct (map dedupKey (dedupFilter seen xs))
   \<and> dedupKey ` set (dedupFilter seen xs) \<inter> seen = {}"
proof (induction xs arbitrary: seen)
  case Nil
  show ?case by simp
next
  case (Cons a xs)
  show ?case
  proof (cases "dedupKey a \<in> seen")
    case True
    with Cons.IH [of seen] show ?thesis by simp
  next
    case False
    with Cons.IH [of "insert (dedupKey a) seen"] show ?thesis by auto
  qed
qed

lemma dedupFilter_fixpoint:
  "distinct (map dedupKey ys) \<Longrightarrow> dedupKey ` set ys \<inter> seen = {} \<Longrightarrow> dedupFilter seen ys = ys"
proof (induction ys arbitrary: seen)
  case Nil
  show ?case by simp
next
  case (Cons a ys)
  from Cons.prems have notin: "dedupKey a \<notin> seen" by auto
  from Cons.prems have "dedupKey ` set ys \<inter> insert (dedupKey a) seen = {}" by auto
  moreover from Cons.prems have "distinct (map dedupKey ys)" by simp
  ultimately have "dedupFilter (insert (dedupKey a) seen) ys = ys" by (rule Cons.IH [rotated])
  with notin show ?case by simp
qed

lemma dedupFilter_snoc:
  "dedupFilter seen (xs @ [a]) =
     dedupFilter seen xs @ (if dedupKey a \<in> seen \<union> dedupKey ` set xs then [] else [a])"
  by (induction xs arbitrary: seen) (auto simp: Let_def)

lemma dedupFilter_positions:
  "dedupFilter seen xs =
     map (\<lambda>i. xs ! i)
       (filter (\<lambda>i. dedupKey (xs ! i) \<notin> seen \<and> (\<forall>j<i. dedupKey (xs ! j) \<noteq> dedupKey (xs ! i)))
          [0..<length xs])"
proof (induction xs rule: rev_induct)
  case Nil
  show ?case by simp
next
  case (snoc a xs)
  let ?ys = "xs @ [a]"
  let ?keep = "\<lambda>zs i. dedupKey (zs ! i) \<notin> seen \<and> (\<forall>j<i. dedupKey (zs ! j) \<noteq> dedupKey (zs ! i))"
  have same: "filter (?keep ?ys) [0..<length xs] = filter (?keep xs) [0..<length xs]"
    by (rule filter_cong) (auto simp: nth_append)
  have front: "map (\<lambda>i. ?ys ! i) (filter (?keep ?ys) [0..<length xs]) = dedupFilter seen xs"
    unfolding same snoc.IH by (rule map_cong) (auto simp: nth_append)
  have "dedupKey a \<in> dedupKey ` set xs \<longleftrightarrow> (\<exists>j<length xs. dedupKey (xs ! j) = dedupKey a)"
    by (metis (no_types, lifting) image_iff in_set_conv_nth)
  then have lastpos: "map (\<lambda>i. ?ys ! i) (filter (?keep ?ys) [length xs]) =
      (if dedupKey a \<in> seen \<union> dedupKey ` set xs then [] else [a])"
    by (auto simp: nth_append)
  have "map (\<lambda>i. ?ys ! i) (filter (?keep ?ys) [0..<length ?ys]) =
      map (\<lambda>i. ?ys ! i) (filter (?keep ?ys) [0..<length xs])
      @ map (\<lambda>i. ?ys ! i) (filter (?keep ?ys) [length xs])"
    by simp
  also have "\<dots> = dedupFilter seen ?ys"
    unfolding front lastpos dedupFilter_snoc ..
  finally show ?case by simp
qed

text \<open>
  C8. Removing duplicates is idempotent: a second run on the result of a first run
  returns that result unchanged.
\<close>

theorem deduplicateArticles_idempotent:
  "deduplicateArticles (deduplicateArticles xs) = deduplicateArticles xs"
  unfolding deduplicateArticles_def
  using dedupFilter_keys [of "{}" xs] by (intro dedupFilter_fixpoint) auto

lemma sample_dedup:
  "deduplicateArticles
     [sampleBuzz ''PLDT expands fiber'' ''https://a.example/Story/'' ''a.example'' 10,
      sampleBuzz ''PLDT expands fiber again'' ''https://a.example/story'' ''a.example'' 7,
      sampleBuzz ''Globe builds towers'' ''https://b.example/towers'' ''b.example'' 3]
   = [sampleBuzz ''PLDT expands fiber'' ''https://a.example/Story/'' ''a.example'' 10,
      sampleBuzz ''Globe builds towers'' ''https://b.example/towers'' ''b.example'' 3]"
  by code_simp

theorem deduplicateArticles_idempotent_witness:
  "deduplicateArticles
     [sampleBuzz ''PLDT expands fiber'' ''https://a.example/Story/'' ''a.example'' 10,
      sampleBuzz ''Globe builds towers'' ''https://b.example/towers'' ''b.example'' 3]
   = [sampleBuzz ''PLDT expands fiber'' ''https://a.example/Story/'' ''a.example'' 10,
      sampleBuzz ''Globe builds towers'' ''https://b.example/towers'' ''b.example'' 3]"
  using deduplicateArticles_idempotent
    [of "[sampleBuzz ''PLDT expands fiber'' ''https://a.example/Story/'' ''a.example'' 10,
          sampleBuzz ''PLDT expands fiber again'' ''https://a.example/story'' ''a.example'' 7,
          sampleBuzz ''Globe builds towers'' ''https://b.example/towers'' ''b.example'' 3]"]
  unfolding sample_dedup .

text \<open>
  C6, as the claim states it, fails: the key of the intra-source pass is not the URL
  normalization of the cross-source check. Two articles whose URLs differ in a leading
  \<open>www.\<close> and a query string have the same normalized URL, and both are kept.
\<close>

theorem deduplicateArticles_normalizeUrl_counterexample:
  "normalizeUrl parseURL
       (url (sampleBuzz ''PLDT expands fiber'' ''https://example.com/news/story'' ''example.com'' 10))
     = normalizeUrl parseURL
       (url (sampleBuzz ''PLDT fiber push'' ''https://www.example.com/news/story?utm=1'' ''example.com'' 4))
   \<and> deduplicateArticles
       [sampleBuzz ''PLDT expands fiber'' ''https://example.com/news/story'' ''example.com'' 10,
        sampleBuzz ''PLDT fiber push'' ''https://www.example.com/news/story?utm=1'' ''example.com'' 4]
     = [sampleBuzz ''PLDT expands fiber'' ''https://example.com/news/story'' ''example.com'' 10,
        sampleBuzz ''PLDT fiber push'' ''https://www.example.com/news/story?utm=1'' ''example.com'' 4]"
  by code_simp

text \<open>
  C6, amended. The key of an article is its URL in lower case with one trailing slash
  removed; scheme, \<open>www.\<close> and query string stay in the key. The output consists, in
  input order, of exactly the articles at the positions that no earlier position shares
  its key with: of any two articles with equal keys only the first occurrence is kept.
\<close>

theorem deduplicateArticles_first_occurrences:
  "dedupKey a = stripTrailingSlash (toLowerCase (url a))
   \<and> deduplicateArticles xs =
       map (\<lambda>i. xs ! i)
         (filter (\<lambda>i. \<forall>j<i. dedupKey (xs ! j) \<noteq> dedupKey (xs ! i)) [0..<length xs])"
  unfolding deduplicateArticles_def dedupFilter_positions by (simp add: dedupKey_def)

theorem deduplicateArticles_first_occurrences_witness:
  "map (\<lambda>i. [sampleBuzz ''PLDT expands fiber'' ''https://a.example/Story/'' ''a.example'' 10,
              sampleBuzz ''PLDT expands fiber again'' ''https://a.example/story'' ''a.example'' 7,
              sampleBuzz ''Globe builds towers'' ''https://b.example/towers'' ''b.example'' 3] ! i)
     (filter (\<lambda>i. \<forall>j<i.
          dedupKey ([sampleBuzz ''PLDT expands fiber'' ''https://a.example/Story/'' ''a.example'' 10,
              sampleBuzz ''PLDT expands fiber again'' ''https://a.example/story'' ''a.example'' 7,
              sampleBuzz ''Globe builds towers'' ''https://b.example/towers'' ''b.example'' 3] ! j)
          \<noteq> dedupKey ([sampleBuzz ''PLDT expands fiber'' ''https://a.example/Story/'' ''a.example'' 10,
              sampleBuzz ''PLDT expands fiber again'' ''https://a.example/story'' ''a.example'' 7,
              sampleBuzz ''Globe builds towers'' ''https://b.example/towers'' ''b.example'' 3] ! i))
        [0..<length [sampleBuzz ''PLDT expands fiber'' ''https://a.example/Story/'' ''a.example'' 10,
              sampleBuzz ''PLDT expands fiber again'' ''https://a.example/story'' ''a.example'' 7,
              sampleBuzz ''Globe builds towers'' ''https://b.example/towers'' ''b.example'' 3]])
   = [sampleBuzz ''PLDT expands fiber'' ''https://a.example/Story/'' ''a.example'' 10,
      sampleBuzz ''Globe builds towers'' ''https://b.example/towers'' ''b.example'' 3]"
  unfolding deduplicateArticles_first_occurrences [THEN conjunct2, symmetric]
  by (rule sample_dedup)

section \<open>Title similarity\<close>

lemma set_newSet: "set (newSet xs) = set xs"
  by (simp add: newSet_def)

lemma distinct_newSet: "distinct (newSet xs)"
  by (simp add: newSet_def)

lemma length_newSet: "length (newSet xs) = card (set xs)"
  using distinct_card [OF distinct_newSet, of xs] by (simp add: set_newSet)

lemma count_common:
  "length (filter (\<lambda>w. w \<in> set (newSet ys)) (newSet xs)) = card (set xs \<inter> set ys)"
proof -
  have "distinct (filter (\<lambda>w. w \<in> set (newSet ys)) (newSet xs))"
    by (simp add: distinct_newSet)
  then have "length (filter (\<lambda>w. w \<in> set (newSet ys)) (newSet xs))
      = card (set (filter (\<lambda>w. w \<in> set (newSet ys)) (newSet xs)))"
    by (rule distinct_card [symmetric])
  also have "set (filter (\<lambda>w. w \<in> set (newSet ys)) (newSet xs)) = set xs \<inter> set ys"
    by (auto simp: set_newSet)
  finally show ?thesis .
qed

lemma similarity_counts:
  "calculateTitleSimilarity t1 t2 =
     (if normalizeTitle t1 = normalizeTitle t2 then 1
      else if card (set (splitOnSpace (normalizeTitle t1)) \<union> set (splitOnSpace (normalizeTitle t2))) > 0
      then of_nat (card (set (splitOnSpace (normalizeTitle t1)) \<inter> set (splitOnSpace (normalizeTitle t2))))
           / of_nat (card (set (splitOnSpace (normalizeTitle t1)) \<union> set (splitOnSpace (normalizeTitle t2))))
      else 0)"
  unfolding calculateTitleSimilarity_def Let_def count_common length_newSet
  by (simp add: set_newSet)

text \<open>
  C9. The title similarity is symmetric in its two arguments, and the similarity of a
  title with itself is 1.
\<close>

theorem calculateTitleSimilarity_symmetric_reflexive:
  "calculateTitleSimilarity a b = calculateTitleSimilarity b a
   \<and> calculateTitleSimilarity t t = 1"
  by (simp add: similarity_counts Int_commute Un_commute)

lemma sample_similarity:
  "calculateTitleSimilarity ''PLDT expands fiber'' ''PLDT expands network'' = 1 / 2"
  by code_simp

theorem calculateTitleSimilarity_symmetric_reflexive_witness:
  "calculateTitleSimilarity ''PLDT expands network'' ''PLDT expands fiber'' = 1 / 2
   \<and> calculateTitleSimilarity ''PLDT expands fiber'' ''PLDT expands fiber'' = 1"
  using calculateTitleSimilarity_symmetric_reflexive
    [of "''PLDT expands fiber''" "''PLDT expands network''" "''PLDT expands fiber''"]
    sample_similarity
  by simp

section \<open>Failure of a source\<close>

text \<open>
  C7. With both query parameters present: when the primary fetch is rejected, the request
  fails with status 500 and carries the message of the rejection. When the secondary
  fetch throws, \<open>fetchPhilippineTelcoNews\<close> returns the empty list, and the handler
  answers exactly as for an empty secondary list (also if the secondary promise itself
  were rejected); when the URL repair succeeds the answer is the news with an empty
  secondary list.
\<close>

theorem api_news_source_failures:
  "startDate \<notin> {None, Some []} \<and> endDate \<notin> {None, Some []} \<longrightarrow>
     api_news fix startDate endDate (Inl msg) buzz
       = ErrorResponse 500 ''Failed to fetch news from Gemini API'' (Some msg)
   \<and> fetchPhilippineTelcoNews (Inl err) = []
   \<and> api_news fix startDate endDate (Inr g) (Inr (fetchPhilippineTelcoNews (Inl err)))
       = api_news fix startDate endDate (Inr g) (Inr [])
   \<and> api_news fix startDate endDate (Inr g) (Inl err)
       = api_news fix startDate endDate (Inr g) (Inr [])
   \<and> (fix (parsedData g) (groundingChunks g) [] = Inr d
       \<longrightarrow> api_news fix startDate endDate (Inr g) (Inr (fetchPhilippineTelcoNews (Inl err)))
             = NewsResponse d [])"
  by (auto simp: api_news_def fetchPhilippineTelcoNews_def)

theorem api_news_source_failures_witness:
  "api_news (\<lambda>d c b. Inr d) (Some ''2025-05-01'') (Some ''2025-05-08'')
       (Inl ''Received an empty response from the API'' :: string + unit gemini_value) (Inr [])
     = ErrorResponse 500 ''Failed to fetch news from Gemini API''
         (Some ''Received an empty response from the API'')
   \<and> api_news (\<lambda>d c b. Inr d) (Some ''2025-05-01'') (Some ''2025-05-08'')
       (Inr \<lparr> parsedData = \<lparr> internationalNews = [], generalNews = [], companyNews = [] \<rparr>,
              groundingChunks = ([] :: unit list) \<rparr>)
       (Inr (fetchPhilippineTelcoNews (Inl ''BUZZSUMO_API_KEY environment variable not set'')))
     = NewsResponse \<lparr> internationalNews = [], generalNews = [], companyNews = [] \<rparr> []"
  using api_news_source_failures
    [of "Some ''2025-05-01''" "Some ''2025-05-08''" "\<lambda>d c b. Inr d"
        "''Received an empty response from the API''" "Inr []"
        "''BUZZSUMO_API_KEY environment variable not set''"
        "\<lparr> parsedData = \<lparr> internationalNews = [], generalNews = [], companyNews = [] \<rparr>,
           groundingChunks = ([] :: unit list) \<rparr>"
        "\<lparr> internationalNews = [], generalNews = [], companyNews = [] \<rparr>"]
  by auto

section \<open>The secondary pipeline\<close>

lemma important_is_relevant: "isImportantArticle a \<Longrightarrow> validateTelcoRelevance a"
  by (auto simp: isImportantArticle_def Let_def split: if_splits)

text \<open>
  C2. For every fetched article list the output has at most 15 articles, is in
  non-increasing order of total shares, and every output article is an article of the
  URL-deduplicated list that passes the relevance validation and the importance
  classification: the output is the first 15 of the ranked list of the articles that
  survive duplicate removal, then relevance validation, then classification.
\<close>

theorem fetchPhilippineTelcoNews_pipeline:
  "length (fetchPhilippineTelcoNews (Inr arts)) \<le> 15
   \<and> sorted_wrt (\<lambda>a b. total_shares (engagement a) \<ge> total_shares (engagement b))
        (fetchPhilippineTelcoNews (Inr arts))
   \<and> (\<forall>a \<in> set (fetchPhilippineTelcoNews (Inr arts)).
         a \<in> set (deduplicateArticles arts) \<and> validateTelcoRelevance a \<and> isImportantArticle a)
   \<and> fetchPhilippineTelcoNews (Inr arts) =
       take 15 (sort_key (\<lambda>a. - total_shares (engagement a))
         (filter isImportantArticle (filter validateTelcoRelevance (deduplicateArticles arts))))"
proof -
  let ?f = "\<lambda>a. - total_shares (engagement a)"
  let ?xs = "filterImportantArticles (deduplicateArticles arts)"
  have out: "fetchPhilippineTelcoNews (Inr arts) = take 15 (sort_key ?f ?xs)"
    by (simp add: fetchPhilippineTelcoNews_def)
  have "sorted (map ?f (sort_key ?f ?xs))" by (rule sorted_sort_key)
  then have "sorted_wrt (\<lambda>a b. ?f a \<le> ?f b) (sort_key ?f ?xs)"
    by (simp add: sorted_wrt_map)
  then have "sorted_wrt (\<lambda>a b. ?f a \<le> ?f b) (take 15 (sort_key ?f ?xs))"
    by (rule sorted_wrt_take)
  then have srt: "sorted_wrt (\<lambda>a b. total_shares (engagement a) \<ge> total_shares (engagement b))
        (fetchPhilippineTelcoNews (Inr arts))"
    unfolding out by simp
  have "set (take 15 (sort_key ?f ?xs)) \<subseteq> set ?xs"
    using set_take_subset [of 15 "sort_key ?f ?xs"] by simp
  then have mem: "\<forall>a \<in> set (fetchPhilippineTelcoNews (Inr arts)).
         a \<in> set (deduplicateArticles arts) \<and> validateTelcoRelevance a \<and> isImportantArticle a"
    unfolding out using important_is_relevant by (auto simp: filterImportantArticles_def)
  have "filter isImportantArticle (filter validateTelcoRelevance (deduplicateArticles arts)) = ?xs"
    unfolding filterImportantArticles_def filter_filter
    by (rule filter_cong) (auto dest: important_is_relevant)
  then have eq: "fetchPhilippineTelcoNews (Inr arts) =
       take 15 (sort_key ?f
         (filter isImportantArticle (filter validateTelcoRelevance (deduplicateArticles arts))))"
    unfolding out by simp
  have "length (fetchPhilippineTelcoNews (Inr arts)) \<le> 15" unfolding out by simp
  with srt mem eq show ?thesis by blast
qed

lemma sample_pipeline:
  "fetchPhilippineTelcoNews (Inr
     [sampleBuzz ''PLDT 5G rollout'' ''https://a.example/1/'' ''a.example'' 4,
      sampleBuzz ''PLDT 5G rollout again'' ''https://A.example/1'' ''a.example'' 90,
      sampleBuzz ''Converge FiberXers win PVL championship'' ''https://a.example/2'' ''a.example'' 70,
      sampleBuzz ''Globe raffle promo'' ''https://a.example/3'' ''a.example'' 50,
      sampleBuzz ''Globe Telecom builds data center'' ''https://a.example/4'' ''a.example'' 9])
   = [sampleBuzz ''Globe Telecom builds data center'' ''https://a.example/4'' ''a.example'' 9,
      sampleBuzz ''PLDT 5G rollout'' ''https://a.example/1/'' ''a.example'' 4]"
  by code_simp

theorem fetchPhilippineTelcoNews_pipeline_witness:
  "sampleBuzz ''PLDT 5G rollout'' ''https://a.example/1/'' ''a.example'' 4
     \<in> set (deduplicateArticles
     [sampleBuzz ''PLDT 5G rollout'' ''https://a.example/1/'' ''a.example'' 4,
      sampleBuzz ''PLDT 5G rollout again'' ''https://A.example/1'' ''a.example'' 90,
      sampleBuzz ''Converge FiberXers win PVL championship'' ''https://a.example/2'' ''a.example'' 70,
      sampleBuzz ''Globe raffle promo'' ''https://a.example/3'' ''a.example'' 50,
      sampleBuzz ''Globe Telecom builds data center'' ''https://a.example/4'' ''a.example'' 9])
   \<and> validateTelcoRelevance (sampleBuzz ''PLDT 5G rollout'' ''https://a.example/1/'' ''a.example'' 4)
   \<and> isImportantArticle (sampleBuzz ''PLDT 5G rollout'' ''https://a.example/1/'' ''a.example'' 4)"
  using fetchPhilippineTelcoNews_pipeline
    [of "[sampleBuzz ''PLDT 5G rollout'' ''https://a.example/1/'' ''a.example'' 4,
      sampleBuzz ''PLDT 5G rollout again'' ''https://A.example/1'' ''a.example'' 90,
      sampleBuzz ''Converge FiberXers win PVL championship'' ''https://a.example/2'' ''a.example'' 70,
      sampleBuzz ''Globe raffle promo'' ''https://a.example/3'' ''a.example'' 50,
      sampleBuzz ''Globe Telecom builds data center'' ''https://a.example/4'' ''a.example'' 9]"]
  unfolding sample_pipeline by simp

section \<open>Importance classification\<close>

text \<open>
  C3. An article that passes the relevance validation is kept by
  \<open>filterImportantArticles\<close> exactly when its domain (compared in lower case) contains
  neither \<open>youtube.com\<close> nor \<open>youtu.be\<close>, its lower-cased title contains no sports
  keyword and no low-importance keyword, and the title contains a high-importance keyword
  or else the domain contains an entry of the major-outlet list while the title contains
  neither \<open>ad\<close> nor \<open>sponsored\<close> as a plain substring.
\<close>

theorem filterImportantArticles_verdict:
  assumes "validateTelcoRelevance a"
  shows "a \<in> set (filterImportantArticles arts) \<longleftrightarrow>
     a \<in> set arts
     \<and> \<not> sublist ''youtube.com'' (toLowerCase (domain_name a))
     \<and> \<not> sublist ''youtu.be'' (toLowerCase (domain_name a))
     \<and> \<not> (\<exists>k \<in> set sportsKeywords. sublist k (toLowerCase (b_title a)))
     \<and> \<not> (\<exists>k \<in> set lowImportanceKeywords. sublist k (toLowerCase (b_title a)))
     \<and> ((\<exists>k \<in> set highImportanceKeywords. sublist k (toLowerCase (b_title a)))
        \<or> ((\<exists>d \<in> set majorNewsSources. sublist d (toLowerCase (domain_name a)))
            \<and> \<not> sublist ''ad'' (toLowerCase (b_title a))
            \<and> \<not> sublist ''sponsored'' (toLowerCase (b_title a))))"
  using assms
  unfolding filterImportantArticles_def isImportantArticle_def Let_def
    includesAny_iff strIncludes_iff_sublist
  by auto

lemma sample_relevant:
  "validateTelcoRelevance
     (sampleBuzz ''Smart Communications Launches 5G Network Expansion''
        ''https://www.philstar.com/business/1'' ''www.philstar.com'' 120)"
  by code_simp

lemma sample_verdict:
  "\<not> sublist ''youtube.com'' (toLowerCase (domain_name
        (sampleBuzz ''Smart Communications Launches 5G Network Expansion''
           ''https://www.philstar.com/business/1'' ''www.philstar.com'' 120)))"
  "\<not> sublist ''youtu.be'' (toLowerCase (domain_name
        (sampleBuzz ''Smart Communications Launches 5G Network Expansion''
           ''https://www.philstar.com/business/1'' ''www.philstar.com'' 120)))"
  "\<not> (\<exists>k \<in> set sportsKeywords. sublist k (toLowerCase (b_title
        (sampleBuzz ''Smart Communications Launches 5G Network Expansion''
           ''https://www.philstar.com/business/1'' ''www.philstar.com'' 120))))"
  "\<not> (\<exists>k \<in> set lowImportanceKeywords. sublist k (toLowerCase (b_title
        (sampleBuzz ''Smart Communications Launches 5G Network Expansion''
           ''https://www.philstar.com/business/1'' ''www.philstar.com'' 120))))"
  "\<exists>k \<in> set highImportanceKeywords. sublist k (toLowerCase (b_title
        (sampleBuzz ''Smart Communications Launches 5G Network Expansion''
           ''https://www.philstar.com/business/1'' ''www.philstar.com'' 120)))"
  by code_simp+

theorem filterImportantArticles_verdict_witness:
  "sampleBuzz ''Smart Communications Launches 5G Network Expansion''
       ''https://www.philstar.com/business/1'' ''www.philstar.com'' 120
     \<in> set (filterImportantArticles
         [sampleBuzz ''Smart Communications Launches 5G Network Expansion''
            ''https://www.philstar.com/business/1'' ''www.philstar.com'' 120])"
proof -
  have "sampleBuzz ''Smart Communications Launches 5G Network Expansion''
       ''https://www.philstar.com/business/1'' ''www.philstar.com'' 120
     \<in> set [sampleBuzz ''Smart Communications Launches 5G Network Expansion''
            ''https://www.philstar.com/business/1'' ''www.philstar.com'' 120]"
    by simp
  then show ?thesis
    unfolding filterImportantArticles_verdict [OF sample_relevant]
    using sample_verdict by (intro conjI disjI1)
qed

section \<open>Relevance validation of an ambiguous \<open>dito\<close>\<close>

lemma prefix_takeWhile:
  "prefix n t \<Longrightarrow> \<forall>c\<in>set n. Q c \<Longrightarrow> prefix n (takeWhile Q t)"
proof (induction n arbitrary: t)
  case Nil
  show ?case by simp
next
  case (Cons x n)
  then obtain t' where t: "t = x # t'" and "prefix n t'"
    by (cases t) auto
  with Cons show ?case by simp
qed

lemma sublist_takeWhile_or_dropWhile:
  assumes "\<forall>c\<in>set n. Q c" and "sublist n s"
  shows "sublist n (takeWhile Q s) \<or> sublist n (dropWhile Q s)"
  using assms(2)
proof (induction s)
  case Nil
  then show ?case by simp
next
  case (Cons x s)
  show ?case
  proof (cases "Q x")
    case False
    with Cons.prems show ?thesis by simp
  next
    case True
    from Cons.prems consider "prefix n (x # s)" | "sublist n s"
      by (auto simp: sublist_Cons_right)
    then show ?thesis
    proof cases
      case 1
      then have "prefix n (takeWhile Q (x # s))"
        using assms(1) by (rule prefix_takeWhile)
      then show ?thesis by blast
    next
      case 2
      with Cons.IH have "sublist n (takeWhile Q s) \<or> sublist n (dropWhile Q s)" .
      with True show ?thesis by (auto simp: sublist_Cons_right)
    qed
  qed
qed

lemma sublist_dropWhile_other:
  assumes "n \<noteq> []" and "\<forall>c\<in>set n. \<not> R c" and "sublist n s"
  shows "sublist n (dropWhile R s)"
  using assms(3)
proof (induction s)
  case Nil
  then show ?case by simp
next
  case (Cons x s)
  show ?case
  proof (cases "R x")
    case False
    with Cons.prems show ?thesis by simp
  next
    case True
    have "\<not> prefix n (x # s)"
    proof
      assume "prefix n (x # s)"
      with assms(1) obtain n' where "n = x # n'" by (cases n) auto
      with assms(2) True show False by simp
    qed
    with Cons.prems have "sublist n s" by (simp add: sublist_Cons_right)
    with Cons.IH True show ?thesis by simp
  qed
qed

lemma word_of_split_contains:
  assumes "n \<noteq> []" and "\<forall>c\<in>set n. \<not> is_space c"
  shows "sublist n s \<Longrightarrow> \<exists>w\<in>set (splitSpaces s). sublist n w"
proof (induction s rule: splitSpaces.induct)
  case (1 s)
  let ?w = "takeWhile (\<lambda>c. \<not> is_space c) s"
  let ?r = "dropWhile (\<lambda>c. \<not> is_space c) s"
  from assms(2) "1.prems" have split: "sublist n ?w \<or> sublist n ?r"
    by (rule sublist_takeWhile_or_dropWhile)
  show ?case
  proof (cases "?r = []")
    case True
    with split assms(1) have "sublist n ?w" by auto
    with True show ?thesis by (subst splitSpaces.simps) (simp add: Let_def)
  next
    case False
    from split show ?thesis
    proof
      assume "sublist n ?w"
      with False show ?thesis by (subst splitSpaces.simps) (simp add: Let_def)
    next
      assume in_rest: "sublist n ?r"
      have "sublist n (dropWhile is_space ?r)"
        using assms(1) _ in_rest by (rule sublist_dropWhile_other) (use assms(2) in simp)
      with "1.IH" [OF refl refl False] obtain w
        where "w \<in> set (splitSpaces (dropWhile is_space ?r))" and "sublist n w" by blast
      with False show ?thesis by (subst splitSpaces.simps) (auto simp: Let_def)
    qed
  qed
qed

lemma findIndex_None_iff: "findIndex p xs = None \<longleftrightarrow> (\<forall>x\<in>set xs. \<not> p x)"
  by (induction xs) auto

lemma findIndex_Some_iff:
  "findIndex p xs = Some i \<longleftrightarrow> i < length xs \<and> p (xs ! i) \<and> (\<forall>j<i. \<not> p (xs ! j))"
proof (induction xs arbitrary: i)
  case Nil
  show ?case by simp
next
  case (Cons x xs)
  show ?case
  proof (cases "p x")
    case True
    then show ?thesis by (cases i) auto
  next
    case False
    show ?thesis
    proof (cases i)
      case 0
      with False show ?thesis by auto
    next
      case (Suc k)
      have "(\<forall>j<Suc k. \<not> p ((x # xs) ! j)) \<longleftrightarrow> (\<forall>j<k. \<not> p (xs ! j))"
        using False by (auto simp: less_Suc_eq_0_disj)
      with False Suc Cons.IH [of k] show ?thesis by auto
    qed
  qed
qed

lemma dito_no_space: "\<forall>c\<in>set ''dito''. \<not> is_space c"
  by (simp add: is_space_def)

lemma ditoRejects_holds:
  assumes dito: "sublist ''dito'' ttl"
    and why: "(\<exists>p\<in>set ditoFalsePositives. sublist p ttl)
       \<or> (\<exists>i. i < length (splitSpaces ttl) \<and> sublist ''dito'' (splitSpaces ttl ! i)
              \<and> (\<forall>j<i. \<not> sublist ''dito'' (splitSpaces ttl ! j))
              \<and> Suc i < length (splitSpaces ttl)
              \<and> splitSpaces ttl ! Suc i \<in> {''sa'', ''ang'', ''na'', ''pa'', ''ay''})
       \<or> \<not> (\<exists>k\<in>set telcoCompanyIndicators. sublist k combined)"
  shows "ditoRejects ttl combined"
proof (cases "includesAny ttl ditoFalsePositives")
  case True
  then show ?thesis by (simp add: ditoRejects_def)
next
  case False
  let ?ws = "splitSpaces ttl"
  let ?p = "\<lambda>w. strIncludes w ''dito''"
  from dito have "\<exists>w\<in>set ?ws. sublist ''dito'' w"
    by (intro word_of_split_contains dito_no_space) simp_all
  then have "findIndex ?p ?ws \<noteq> None"
    by (simp add: findIndex_None_iff strIncludes_iff_sublist)
  then obtain k where k: "findIndex ?p ?ws = Some k" by blast
  then have first: "k < length ?ws" "sublist ''dito'' (?ws ! k)"
      "\<forall>j<k. \<not> sublist ''dito'' (?ws ! j)"
    by (simp_all add: findIndex_Some_iff strIncludes_iff_sublist)
  from why False consider
      (next_token) i where "i < length ?ws" "sublist ''dito'' (?ws ! i)"
        "\<forall>j<i. \<not> sublist ''dito'' (?ws ! j)" "Suc i < length ?ws"
        "?ws ! Suc i \<in> {''sa'', ''ang'', ''na'', ''pa'', ''ay''}"
    | (no_context) "\<not> includesAny combined telcoCompanyIndicators"
    by (auto simp: includesAny_iff)
  then show ?thesis
  proof cases
    case next_token
    have "i = k"
    proof (rule ccontr)
      assume "i \<noteq> k"
      then consider "i < k" | "k < i" by linarith
      then show False using first next_token by cases auto
    qed
    with next_token have "elemAt ?ws (k + 1) = Some (?ws ! Suc k)"
      and "?ws ! Suc k \<noteq> [] \<and> ?ws ! Suc k \<in> set [''sa'', ''ang'', ''na'', ''pa'', ''ay'']"
      by (auto simp: elemAt_def)
    with False k show ?thesis by (simp add: ditoRejects_def Let_def)
  next
    case no_context
    with False k show ?thesis by (simp add: ditoRejects_def Let_def split: option.splits)
  qed
qed

lemma pumunta_lower:
  "toLowerCase ''Pumunta dito sa Manila for vacation'' = ''pumunta dito sa manila for vacation''"
  by code_simp

lemma pumunta_facts:
  "sublist ''dito'' ''pumunta dito sa manila for vacation''"
  "\<not> sublist ''dito telecom'' ''pumunta dito sa manila for vacation''"
  "\<not> sublist ''dito network'' ''pumunta dito sa manila for vacation''"
  "\<exists>p\<in>set ditoFalsePositives. sublist p ''pumunta dito sa manila for vacation''"
  by code_simp+

text \<open>
  C4, as the claim states it, fails. The code looks at the token after the first token
  that contains the letters \<open>dito\<close>, not after the word \<open>dito\<close>. In the title
  \<open>PLDT editor dito ay masaya\<close> the word \<open>dito\<close> is followed by \<open>ay\<close>, the title
  contains \<open>dito\<close> and neither \<open>dito telecom\<close> nor \<open>dito network\<close>, and still the
  article is relevant: the first token containing \<open>dito\<close> is \<open>editor\<close>, its successor
  \<open>dito\<close> is not in the list, no literal Tagalog phrase occurs, and \<open>pldt\<close> is a telco
  indicator.
\<close>

theorem validateTelcoRelevance_dito_counterexample:
  "sublist ''dito'' (toLowerCase (b_title
      (sampleBuzz ''PLDT editor dito ay masaya'' ''https://a.example/7'' ''a.example'' 5)))
   \<and> \<not> sublist ''dito telecom'' (toLowerCase (b_title
      (sampleBuzz ''PLDT editor dito ay masaya'' ''https://a.example/7'' ''a.example'' 5)))
   \<and> \<not> sublist ''dito network'' (toLowerCase (b_title
      (sampleBuzz ''PLDT editor dito ay masaya'' ''https://a.example/7'' ''a.example'' 5)))
   \<and> splitSpaces (toLowerCase (b_title
      (sampleBuzz ''PLDT editor dito ay masaya'' ''https://a.example/7'' ''a.example'' 5)))
       = [''pldt'', ''editor'', ''dito'', ''ay'', ''masaya'']
   \<and> ''ay'' \<in> {''sa'', ''ang'', ''na'', ''pa'', ''ay''}
   \<and> validateTelcoRelevance
      (sampleBuzz ''PLDT editor dito ay masaya'' ''https://a.example/7'' ''a.example'' 5)"
  by code_simp

text \<open>
  C4, amended. Let the lower-cased title contain \<open>dito\<close> but neither \<open>dito telecom\<close>
  nor \<open>dito network\<close>. The article is not relevant when the title contains one of the
  literal Tagalog phrases, or when the token that follows the first white-space separated
  token containing \<open>dito\<close> as a substring is one of \<open>sa\<close>, \<open>ang\<close>, \<open>na\<close>, \<open>pa\<close>,
  \<open>ay\<close>, or when no telco-context indicator occurs in the lower-cased title, a space and
  the lower-cased excerpt. An article titled \<open>Pumunta dito sa Manila for vacation\<close> is
  not relevant.
\<close>

theorem validateTelcoRelevance_dito:
  "(sublist ''dito'' (toLowerCase (b_title a))
    \<and> \<not> sublist ''dito telecom'' (toLowerCase (b_title a))
    \<and> \<not> sublist ''dito network'' (toLowerCase (b_title a))
    \<and> ((\<exists>p\<in>set ditoFalsePositives. sublist p (toLowerCase (b_title a)))
       \<or> (\<exists>i. i < length (splitSpaces (toLowerCase (b_title a)))
              \<and> sublist ''dito'' (splitSpaces (toLowerCase (b_title a)) ! i)
              \<and> (\<forall>j<i. \<not> sublist ''dito'' (splitSpaces (toLowerCase (b_title a)) ! j))
              \<and> Suc i < length (splitSpaces (toLowerCase (b_title a)))
              \<and> splitSpaces (toLowerCase (b_title a)) ! Suc i
                  \<in> {''sa'', ''ang'', ''na'', ''pa'', ''ay''})
       \<or> \<not> (\<exists>k\<in>set telcoCompanyIndicators.
               sublist k (toLowerCase (b_title a) @ '' ''
                          @ toLowerCase (case excerpt a of None \<Rightarrow> [] | Some e \<Rightarrow> e))))
    \<longrightarrow> \<not> validateTelcoRelevance a)
   \<and> (b_title b = ''Pumunta dito sa Manila for vacation'' \<longrightarrow> \<not> validateTelcoRelevance b)"
proof -
  have general: "\<not> validateTelcoRelevance a"
    if h: "sublist ''dito'' (toLowerCase (b_title a))
    \<and> \<not> sublist ''dito telecom'' (toLowerCase (b_title a))
    \<and> \<not> sublist ''dito network'' (toLowerCase (b_title a))
    \<and> ((\<exists>p\<in>set ditoFalsePositives. sublist p (toLowerCase (b_title a)))
       \<or> (\<exists>i. i < length (splitSpaces (toLowerCase (b_title a)))
              \<and> sublist ''dito'' (splitSpaces (toLowerCase (b_title a)) ! i)
              \<and> (\<forall>j<i. \<not> sublist ''dito'' (splitSpaces (toLowerCase (b_title a)) ! j))
              \<and> Suc i < length (splitSpaces (toLowerCase (b_title a)))
              \<and> splitSpaces (toLowerCase (b_title a)) ! Suc i
                  \<in> {''sa'', ''ang'', ''na'', ''pa'', ''ay''})
       \<or> \<not> (\<exists>k\<in>set telcoCompanyIndicators.
               sublist k (toLowerCase (b_title a) @ '' ''
                          @ toLowerCase (case excerpt a of None \<Rightarrow> [] | Some e \<Rightarrow> e))))"
    for a
  proof -
    from h have "ditoRejects (toLowerCase (b_title a))
       (toLowerCase (b_title a) @ '' '' @ toLowerCase (case excerpt a of None \<Rightarrow> [] | Some e \<Rightarrow> e))"
      by (intro ditoRejects_holds) blast+
    with h show ?thesis
      by (simp add: validateTelcoRelevance_def Let_def strIncludes_iff_sublist)
  qed
  have "\<not> validateTelcoRelevance b" if "b_title b = ''Pumunta dito sa Manila for vacation''"
    by (rule general) (simp add: that pumunta_lower pumunta_facts)
  with general [of a] show ?thesis by blast
qed

lemma sample_tokens:
  "splitSpaces (toLowerCase (b_title
      (sampleBuzz ''PLDT telco load dito ay sulit'' ''https://a.example/9'' ''a.example'' 2)))
     = [''pldt'', ''telco'', ''load'', ''dito'', ''ay'', ''sulit'']"
  by code_simp

lemma sample_dito:
  "sublist ''dito'' (toLowerCase (b_title
      (sampleBuzz ''PLDT telco load dito ay sulit'' ''https://a.example/9'' ''a.example'' 2)))"
  "\<not> sublist ''dito telecom'' (toLowerCase (b_title
      (sampleBuzz ''PLDT telco load dito ay sulit'' ''https://a.example/9'' ''a.example'' 2)))"
  "\<not> sublist ''dito network'' (toLowerCase (b_title
      (sampleBuzz ''PLDT telco load dito ay sulit'' ''https://a.example/9'' ''a.example'' 2)))"
  by code_simp+

lemma sample_words:
  "sublist ''dito'' ''dito''" "\<not> sublist ''dito'' ''pldt''"
  "\<not> sublist ''dito'' ''telco''" "\<not> sublist ''dito'' ''load''"
  by code_simp+

text \<open>In the sample title the Tagalog phrases are absent and a telco indicator is present,
  so only the token after \<open>dito\<close> rejects it.\<close>

lemma sample_only_next_token:
  "\<not> (\<exists>p\<in>set ditoFalsePositives. sublist p (toLowerCase (b_title
      (sampleBuzz ''PLDT telco load dito ay sulit'' ''https://a.example/9'' ''a.example'' 2))))"
  "\<exists>k\<in>set telcoCompanyIndicators.
      sublist k (toLowerCase (b_title
          (sampleBuzz ''PLDT telco load dito ay sulit'' ''https://a.example/9'' ''a.example'' 2))
        @ '' ''
        @ toLowerCase (case excerpt
            (sampleBuzz ''PLDT telco load dito ay sulit'' ''https://a.example/9'' ''a.example'' 2)
            of None \<Rightarrow> [] | Some e \<Rightarrow> e))"
  by code_simp+

lemma sample_next:
  "\<exists>i. i < length (splitSpaces (toLowerCase (b_title
            (sampleBuzz ''PLDT telco load dito ay sulit'' ''https://a.example/9'' ''a.example'' 2))))
      \<and> sublist ''dito'' (splitSpaces (toLowerCase (b_title
            (sampleBuzz ''PLDT telco load dito ay sulit'' ''https://a.example/9'' ''a.example'' 2))) ! i)
      \<and> (\<forall>j<i. \<not> sublist ''dito'' (splitSpaces (toLowerCase (b_title
            (sampleBuzz ''PLDT telco load dito ay sulit'' ''https://a.example/9'' ''a.example'' 2))) ! j))
      \<and> Suc i < length (splitSpaces (toLowerCase (b_title
            (sampleBuzz ''PLDT telco load dito ay sulit'' ''https://a.example/9'' ''a.example'' 2))))
      \<and> splitSpaces (toLowerCase (b_title
            (sampleBuzz ''PLDT telco load dito ay sulit'' ''https://a.example/9'' ''a.example'' 2))) ! Suc i
           \<in> {''sa'', ''ang'', ''na'', ''pa'', ''ay''}"
  unfolding sample_tokens
  by (rule exI [of _ 3]) (simp add: sample_words less_Suc_eq numeral_3_eq_3)

theorem validateTelcoRelevance_dito_witness:
  "\<not> validateTelcoRelevance
        (sampleBuzz ''PLDT telco load dito ay sulit'' ''https://a.example/9'' ''a.example'' 2)
   \<and> \<not> validateTelcoRelevance
        (sampleBuzz ''Pumunta dito sa Manila for vacation'' ''https://a.example/8'' ''a.example'' 3)"
proof -
  have "b_title (sampleBuzz ''Pumunta dito sa Manila for vacation'' ''https://a.example/8'' ''a.example'' 3)
      = ''Pumunta dito sa Manila for vacation''"
    by simp
  then show ?thesis
    using validateTelcoRelevance_dito
      [of "sampleBuzz ''PLDT telco load dito ay sulit'' ''https://a.example/9'' ''a.example'' 2"
          "sampleBuzz ''Pumunta dito sa Manila for vacation'' ''https://a.example/8'' ''a.example'' 3"]
      sample_dito sample_next
    by blast
qed

end
